theory Spec2Isabelle
  imports Complex_Main "HOL-Library.Word" "HOL-Library.Sublist"
begin

section \<open>JavaScript values read off the wire\<close>

text \<open>
  A string of the language is a sequence of 16-bit code units, paired or not. The
  client's own texts are ASCII; \<open>js\<close> turns an ASCII literal into the string.
\<close>

type_synonym jstring = "16 word list"

definition unit_of :: "char \<Rightarrow> 16 word" where
  "unit_of ch = of_nat (of_char ch)"

definition js :: "string \<Rightarrow> jstring" where
  "js s = map unit_of s"

text \<open>
  A number of the language is a double: a finite value, which is a rational, or an
  infinity (what a JSON literal too large for a double decodes to). NaN is no value of a
  decoded body; where a conversion yields it, the conversion says so.
\<close>

datatype number = Finite rat | PlusInfinity | MinusInfinity

text \<open>
  A response body is whatever the transport decoded: \<open>undefined\<close> when there is no
  body, otherwise a JSON value. Objects are association lists in key order (keys of a
  parsed JSON object are distinct).
\<close>

datatype jsval =
    JUndefined
  | JNull
  | JBool bool
  | JNum number
  | JStr jstring
  | JArr "jsval list"
  | JObj "(jstring \<times> jsval) list"

datatype http_method = Get | Post | Delete

record axios_response =
  status :: nat
  data :: jsval

text \<open>
  The value a rejected transport call carries (\<open>AxiosError\<close>): \<open>status\<close> is undefined
  when no response was received, \<open>response\<close> is the response when there is one.
\<close>

record axios_error =
  err_status :: "nat option"
  err_response :: "axios_response option"
  err_message :: jstring

datatype cause = AxiosCause axios_error | UrlCause

text \<open>
  Everything the client can throw. The message of an error is a string: the \<open>Error\<close>
  constructor converts what it is given. \<open>ElementNotFoundError\<close> extends
  \<open>NotFoundError\<close> and stores its element value in the inherited \<open>resourceId\<close> field,
  as it was given. \<open>TypeError\<close> and \<open>URIError\<close> are the runtime's own errors (reading a
  property of \<open>null\<close> or \<open>undefined\<close>, calling a value that is not a function,
  converting an object without a usable \<open>toString\<close>, an unparsable URL; encoding a
  string with an unpaired surrogate).
\<close>

datatype js_error =
    TypeError
  | URIError
  | Error jstring "cause option"
  | NotFoundError jstring jsval
  | ElementNotFoundError jstring jstring jsval

fun ResourceId :: "js_error \<Rightarrow> jsval option" where
  "ResourceId (NotFoundError m r) = Some r"
| "ResourceId (ElementNotFoundError m t v) = Some v"
| "ResourceId _ = None"

fun ElementType :: "js_error \<Rightarrow> jstring option" where
  "ElementType (ElementNotFoundError m t v) = Some t"
| "ElementType _ = None"

fun ElementValue :: "js_error \<Rightarrow> jsval option" where
  "ElementValue (ElementNotFoundError m t v) = Some v"
| "ElementValue _ = None"

subsection \<open>What the model takes as given\<close>

text \<open>
  Builtins of the runtime that the client calls, and the one declaration the sources
  do not hold: \<open>NumberToString\<close> is how a number prints, \<open>StringToNumber\<close> is the
  numeric reading of a string (\<open>None\<close> for NaN), \<open>JSON_stringify\<close> is
  \<open>JSON.stringify\<close>, \<open>URL_parse\<close> is the URL constructor (the serialised \<open>href\<close> of
  the parsed URL, \<open>None\<close> when it throws), and \<open>method_name\<close> is how a member of the
  \<open>HttpRequestMethod\<close> enumeration prints.
\<close>

record environment =
  NumberToString :: "number \<Rightarrow> jstring"
  StringToNumber :: "jstring \<Rightarrow> number option"
  JSON_stringify :: "jsval \<Rightarrow> jstring"
  URL_parse :: "jstring \<Rightarrow> jstring option"
  method_name :: "http_method \<Rightarrow> jstring"

record url =
  href :: jstring

definition URL_new :: "environment \<Rightarrow> jstring \<Rightarrow> js_error + url" where
  "URL_new env s = (case URL_parse env s of None \<Rightarrow> Inl TypeError | Some h \<Rightarrow> Inr \<lparr>href = h\<rparr>)"

subsection \<open>Number and string conversions of the runtime\<close>

fun string_of_nat :: "nat \<Rightarrow> string" where
  "string_of_nat n =
     (if n < 10 then [''0123456789'' ! n]
      else string_of_nat (n div 10) @ [''0123456789'' ! (n mod 10)])"

declare string_of_nat.simps [simp del]

definition string_of_int :: "int \<Rightarrow> string" where
  "string_of_int i = (if i < 0 then CHR ''-'' # string_of_nat (nat (- i)) else string_of_nat (nat i))"

text \<open>
  How a number prints. An integer of magnitude below \<open>2^53\<close> prints as its decimal
  digits; how any other finite number prints (the shortest digits that read back as the
  same double, with an exponent from \<open>1e21\<close> on) is left to the runtime.
\<close>

definition Number_toString :: "environment \<Rightarrow> number \<Rightarrow> jstring" where
  "Number_toString env x =
     (case x of
        Finite q \<Rightarrow>
          if q = of_int \<lfloor>q\<rfloor> \<and> \<bar>q\<bar> < 2 ^ 53 then js (string_of_int \<lfloor>q\<rfloor>)
          else NumberToString env x
      | PlusInfinity \<Rightarrow> js ''Infinity''
      | MinusInfinity \<Rightarrow> js ''-Infinity'')"

definition lookup :: "(jstring \<times> jsval) list \<Rightarrow> jstring \<Rightarrow> jsval" where
  "lookup kvs k = (case map_of kvs k of None \<Rightarrow> JUndefined | Some v \<Rightarrow> v)"

definition has_key :: "(jstring \<times> jsval) list \<Rightarrow> jstring \<Rightarrow> bool" where
  "has_key kvs k = (map_of kvs k \<noteq> None)"

fun join_with :: "jstring \<Rightarrow> jstring list \<Rightarrow> jstring" where
  "join_with sep [] = []"
| "join_with sep [x] = x"
| "join_with sep (x # y # ys) = x @ sep @ join_with sep (y # ys)"

text \<open>
  \<open>ToString\<close> of the language, as a template literal and the \<open>Error\<close> constructor
  apply it. An object whose own \<open>toString\<close> property is data (all a JSON body can
  hold) has no usable conversion and the runtime throws; an array joins its elements
  with commas, \<open>null\<close> and \<open>undefined\<close> elements as empty strings.
\<close>

fun ToString_js :: "environment \<Rightarrow> jsval \<Rightarrow> js_error + jstring" where
  "ToString_js env JUndefined = Inr (js ''undefined'')"
| "ToString_js env JNull = Inr (js ''null'')"
| "ToString_js env (JBool b) = Inr (if b then js ''true'' else js ''false'')"
| "ToString_js env (JNum x) = Inr (Number_toString env x)"
| "ToString_js env (JStr s) = Inr s"
| "ToString_js env (JObj kvs) =
     (if has_key kvs (js ''toString'') then Inl TypeError else Inr (js ''[object Object]''))"
| "ToString_js env (JArr xs) =
     (let rs = map (\<lambda>x. if x = JUndefined \<or> x = JNull then Inr [] else ToString_js env x) xs
      in if list_ex isl rs then Inl TypeError else Inr (join_with (js '','') (map projr rs)))"

text \<open>
  The message an error is constructed with: \<open>Error(message)\<close> converts its argument to
  a string, and leaves the message empty when the argument is \<open>undefined\<close>.
\<close>

definition Error_message :: "environment \<Rightarrow> jsval \<Rightarrow> js_error + jstring" where
  "Error_message env v = (if v = JUndefined then Inr [] else ToString_js env v)"

fun typeof :: "jsval \<Rightarrow> string" where
  "typeof JUndefined = ''undefined''"
| "typeof JNull = ''object''"
| "typeof (JBool b) = ''boolean''"
| "typeof (JNum x) = ''number''"
| "typeof (JStr s) = ''string''"
| "typeof (JArr xs) = ''object''"
| "typeof (JObj kvs) = ''object''"

subsection \<open>Property access\<close>

text \<open>
  \<open>x.hasOwnProperty(k)\<close>: reading the method off \<open>null\<close> or \<open>undefined\<close> throws; an
  object that has an own property called \<open>hasOwnProperty\<close> shadows the method with
  data, and calling data throws. Strings and arrays own their indices and \<open>length\<close>.
\<close>

definition hasOwnProperty :: "jsval \<Rightarrow> jstring \<Rightarrow> js_error + bool" where
  "hasOwnProperty v k =
     (case v of
        JUndefined \<Rightarrow> Inl TypeError
      | JNull \<Rightarrow> Inl TypeError
      | JBool b \<Rightarrow> Inr False
      | JNum x \<Rightarrow> Inr False
      | JStr s \<Rightarrow> Inr (k = js ''length'' \<or> k \<in> set (map (\<lambda>i. js (string_of_nat i)) [0..<length s]))
      | JArr xs \<Rightarrow> Inr (k = js ''length'' \<or> k \<in> set (map (\<lambda>i. js (string_of_nat i)) [0..<length xs]))
      | JObj kvs \<Rightarrow>
          if has_key kvs (js ''hasOwnProperty'') then Inl TypeError else Inr (has_key kvs k))"

text \<open>
  \<open>x.k\<close> for the property names the client reads (\<open>error\<close>, \<open>code\<close>, \<open>name\<close>,
  \<open>length\<close>, \<open>entity\<close>, ...), none of which a prototype supplies. The length of a
  string is its number of code units.
\<close>

definition get_prop :: "jsval \<Rightarrow> jstring \<Rightarrow> js_error + jsval" where
  "get_prop v k =
     (case v of
        JUndefined \<Rightarrow> Inl TypeError
      | JNull \<Rightarrow> Inl TypeError
      | JBool b \<Rightarrow> Inr JUndefined
      | JNum x \<Rightarrow> Inr JUndefined
      | JStr s \<Rightarrow> Inr (if k = js ''length'' then JNum (Finite (of_nat (length s))) else JUndefined)
      | JArr xs \<Rightarrow> Inr (if k = js ''length'' then JNum (Finite (of_nat (length xs))) else JUndefined)
      | JObj kvs \<Rightarrow> Inr (lookup kvs k))"

text \<open>\<open>x[i]\<close> for a number \<open>i\<close>, on a value whose \<open>length\<close> could be read.\<close>

definition get_index :: "jsval \<Rightarrow> nat \<Rightarrow> jsval" where
  "get_index v i =
     (case v of
        JStr s \<Rightarrow> if i < length s then JStr [s ! i] else JUndefined
      | JArr xs \<Rightarrow> if i < length xs then xs ! i else JUndefined
      | JObj kvs \<Rightarrow> lookup kvs (js (string_of_nat i))
      | _ \<Rightarrow> JUndefined)"

definition ToNumber_js :: "environment \<Rightarrow> jsval \<Rightarrow> js_error + number option" where
  "ToNumber_js env v =
     (case v of
        JUndefined \<Rightarrow> Inr None
      | JNull \<Rightarrow> Inr (Some (Finite 0))
      | JBool b \<Rightarrow> Inr (Some (Finite (if b then 1 else 0)))
      | JNum x \<Rightarrow> Inr (Some x)
      | JStr s \<Rightarrow> Inr (StringToNumber env s)
      | _ \<Rightarrow> (case ToString_js env v of Inl e \<Rightarrow> Inl e | Inr s \<Rightarrow> Inr (StringToNumber env s)))"

text \<open>
  How many of \<open>i = 0, 1, 2, ...\<close> satisfy \<open>i < x\<close>: \<open>None\<close> when all of them do.
\<close>

definition iterations :: "number \<Rightarrow> nat option" where
  "iterations x =
     (case x of
        Finite q \<Rightarrow> Some (nat \<lceil>q\<rceil>)
      | PlusInfinity \<Rightarrow> None
      | MinusInfinity \<Rightarrow> Some 0)"

text \<open>
  The first index at which an object has no element: one of \<open>0, ..., n\<close> for an
  object of \<open>n\<close> properties.
\<close>

definition first_undefined :: "jsval \<Rightarrow> nat" where
  "first_undefined v =
     (case v of
        JObj kvs \<Rightarrow>
          (case find (\<lambda>i. get_index v i = JUndefined) [0..<length kvs + 1] of
             Some i \<Rightarrow> i
           | None \<Rightarrow> length kvs)
      | _ \<Rightarrow> 0)"

text \<open>
  The values \<open>v[0], v[1], ...\<close> that \<open>for (i = 0; i < v.length; i++)\<close> visits:
  reading \<open>length\<close> throws on \<open>null\<close> and \<open>undefined\<close>, and \<open>i < v.length\<close> compares
  numbers, so a \<open>length\<close> that is not a number is converted (NaN stops the loop at once).
  Only an object can have an infinite length; the loop over it is left by a throw alone,
  and each loop of the client reads a property of the element before anything else,
  which throws on \<open>undefined\<close>: the elements visited end with the first undefined one.
\<close>

definition loop_elements :: "environment \<Rightarrow> jsval \<Rightarrow> js_error + jsval list" where
  "loop_elements env v =
     (case get_prop v (js ''length'') of
        Inl e \<Rightarrow> Inl e
      | Inr len \<Rightarrow>
          (case ToNumber_js env len of
             Inl e \<Rightarrow> Inl e
           | Inr None \<Rightarrow> Inr []
           | Inr (Some x) \<Rightarrow>
               (case iterations x of
                  Some n \<Rightarrow> Inr (map (get_index v) [0..<n])
                | None \<Rightarrow> Inr (map (get_index v) [0..<first_undefined v + 1]))))"

fun collect :: "('e + 'a) list \<Rightarrow> 'e + 'a list" where
  "collect [] = Inr []"
| "collect (Inl e # rs) = Inl e"
| "collect (Inr x # rs) = (case collect rs of Inl e \<Rightarrow> Inl e | Inr xs \<Rightarrow> Inr (x # xs))"

section \<open>The wire error decoder\<close>

text \<open>
  Modelled from the spec: \<open>NameValuePair\<close> (models/name-value-pair) is not among the
  sources; it is the name/value pair of an error attribute, built from a name and a
  value and read through \<open>Name\<close> and \<open>Value\<close>.
\<close>

record NameValuePair =
  Name :: jsval
  Value :: jsval

record HttpErrorResponse =
  Code :: jsval
  Message :: jsval
  Target :: jsval
  Attributes :: "NameValuePair list"
  InnerError :: jsval

definition attribute_of :: "jsval \<Rightarrow> js_error + NameValuePair" where
  "attribute_of x =
     (case get_prop x (js ''name'') of
        Inl e \<Rightarrow> Inl e
      | Inr n \<Rightarrow> (case get_prop x (js ''value'') of
                    Inl e \<Rightarrow> Inl e
                  | Inr v \<Rightarrow> Inr \<lparr>Name = n, Value = v\<rparr>))"

text \<open>The body of the decoder once \<open>error\<close> is known to own \<open>code\<close> and \<open>message\<close>.\<close>

definition decode_error_object :: "environment \<Rightarrow> (jstring \<times> jsval) list \<Rightarrow> js_error + HttpErrorResponse" where
  "decode_error_object env kvs =
     (let code = lookup kvs (js ''code'');
          message = lookup kvs (js ''message'');
          target = (if has_key kvs (js ''target'') then lookup kvs (js ''target'') else JNull);
          innerError = (if has_key kvs (js ''innerError'') then lookup kvs (js ''innerError'') else JNull)
      in case (if has_key kvs (js ''attributes'')
               then (case loop_elements env (lookup kvs (js ''attributes'')) of
                       Inl e \<Rightarrow> Inl e
                     | Inr xs \<Rightarrow> collect (map attribute_of xs))
               else Inr []) of
           Inl e \<Rightarrow> Inl e
         | Inr attributes \<Rightarrow>
             Inr \<lparr>Code = code, Message = message, Target = target,
                  Attributes = attributes, InnerError = innerError\<rparr>)"

definition DeserializeResponseDataToHttpErrorResponse ::
    "environment \<Rightarrow> jsval \<Rightarrow> js_error + HttpErrorResponse option" where
  "DeserializeResponseDataToHttpErrorResponse env responseData =
     (if responseData = JUndefined \<or> responseData = JNull then Inr None
      else case hasOwnProperty responseData (js ''error'') of
        Inl e \<Rightarrow> Inl e
      | Inr False \<Rightarrow> Inr None
      | Inr True \<Rightarrow>
          (case get_prop responseData (js ''error'') of
             Inl e \<Rightarrow> Inl e
           | Inr error \<Rightarrow>
               if typeof error = ''object'' then
                 (case hasOwnProperty error (js ''code'') of
                    Inl e \<Rightarrow> Inl e
                  | Inr False \<Rightarrow> Inr None
                  | Inr True \<Rightarrow>
                      (case hasOwnProperty error (js ''message'') of
                         Inl e \<Rightarrow> Inl e
                       | Inr False \<Rightarrow> Inr None
                       | Inr True \<Rightarrow>
                           (case error of
                              JObj kvs \<Rightarrow> map_sum id Some (decode_error_object env kvs)
                            | _ \<Rightarrow> Inr None)))
               else Inr None))"

section \<open>Error mapping\<close>

fun attribute_value :: "NameValuePair list \<Rightarrow> jstring \<Rightarrow> jsval" where
  "attribute_value [] attributeName = JStr []"
| "attribute_value (a # as) attributeName =
     (if Name a = JStr attributeName then Value a else attribute_value as attributeName)"

definition GetHttpErrorResponseAttributeValue :: "HttpErrorResponse \<Rightarrow> jstring \<Rightarrow> jsval" where
  "GetHttpErrorResponseAttributeValue httpErrorResponse attributeName =
     attribute_value (Attributes httpErrorResponse) attributeName"

text \<open>
  The two error classes under construction: the attribute value is already in hand when
  \<open>super(message)\<close> converts the message, and a message without a string conversion
  makes the constructor throw instead.
\<close>

definition new_ElementNotFoundError :: "environment \<Rightarrow> jsval \<Rightarrow> jstring \<Rightarrow> jsval \<Rightarrow> js_error" where
  "new_ElementNotFoundError env message elementType elementValue =
     (case Error_message env message of
        Inl e \<Rightarrow> e
      | Inr m \<Rightarrow> ElementNotFoundError m elementType elementValue)"

definition new_NotFoundError :: "environment \<Rightarrow> jsval \<Rightarrow> jsval \<Rightarrow> js_error" where
  "new_NotFoundError env message resourceId =
     (case Error_message env message of
        Inl e \<Rightarrow> e
      | Inr m \<Rightarrow> NotFoundError m resourceId)"

text \<open>The function registered for status 404; every branch of it throws.\<close>

definition throw_for_404 :: "environment \<Rightarrow> HttpErrorResponse \<Rightarrow> js_error" where
  "throw_for_404 env r =
     (if Code r = JStr (js ''UserNotFoundException'') then
        new_ElementNotFoundError env (Message r) (js ''User'')
          (GetHttpErrorResponseAttributeValue r (js ''User''))
      else if Code r = JStr (js ''GroupNotFoundException'') then
        new_ElementNotFoundError env (Message r) (js ''Group'')
          (GetHttpErrorResponseAttributeValue r (js ''Group''))
      else if Code r = JStr (js ''EntityTypeNotFoundException'') then
        new_ElementNotFoundError env (Message r) (js ''EntityType'')
          (GetHttpErrorResponseAttributeValue r (js ''EntityType''))
      else if Code r = JStr (js ''EntityNotFoundException'') then
        new_ElementNotFoundError env (Message r) (js ''Entity'')
          (GetHttpErrorResponseAttributeValue r (js ''Entity''))
      else
        new_NotFoundError env (Message r) (GetHttpErrorResponseAttributeValue r (js ''ResourceId'')))"

definition statusCodeToErrorThrowingFunctionMap ::
    "environment \<Rightarrow> nat \<Rightarrow> (HttpErrorResponse \<Rightarrow> js_error) option" where
  "statusCodeToErrorThrowingFunctionMap env = Map.empty(404 \<mapsto> throw_for_404 env)"

definition quoted :: "jstring \<Rightarrow> jstring" where
  "quoted s = unit_of (CHR 0x27) # s @ [unit_of (CHR 0x27)]"

definition call_failure :: "environment \<Rightarrow> http_method \<Rightarrow> url \<Rightarrow> jstring" where
  "call_failure env method requestUrl =
     js ''Failed to call URL '' @ quoted (href requestUrl) @ js '' with ''
       @ quoted (method_name env method) @ js '' method.  ''"

definition baseExceptionMessage :: "environment \<Rightarrow> http_method \<Rightarrow> url \<Rightarrow> nat \<Rightarrow> jstring" where
  "baseExceptionMessage env method requestUrl st =
     call_failure env method requestUrl @ js ''Received non-succces HTTP response status ''
       @ Number_toString env (Finite (of_nat st))"

definition HandleAxiosError :: "environment \<Rightarrow> http_method \<Rightarrow> url \<Rightarrow> axios_error \<Rightarrow> js_error" where
  "HandleAxiosError env method requestUrl error =
     Error (call_failure env method requestUrl @ err_message error) (Some (AxiosCause error))"

text \<open>
  \<open>HandleNonSuccessResponseStatus\<close> leaves by a throw on every path (the decoder's own
  failure included), so the model returns the error thrown.
\<close>

definition HandleNonSuccessResponseStatus ::
    "environment \<Rightarrow> http_method \<Rightarrow> url \<Rightarrow> nat \<Rightarrow> jsval \<Rightarrow> js_error" where
  "HandleNonSuccessResponseStatus env method requestUrl st responseData =
     (case DeserializeResponseDataToHttpErrorResponse env responseData of
        Inl e \<Rightarrow> e
      | Inr (Some httpErrorResponse) \<Rightarrow>
          (case statusCodeToErrorThrowingFunctionMap env st of
             Some errorThrowingFunction \<Rightarrow> errorThrowingFunction httpErrorResponse
           | None \<Rightarrow>
               (case ToString_js env (Code httpErrorResponse) of
                  Inl e \<Rightarrow> e
                | Inr c \<Rightarrow>
                    (case ToString_js env (Message httpErrorResponse) of
                       Inl e \<Rightarrow> e
                     | Inr m \<Rightarrow>
                         Error (baseExceptionMessage env method requestUrl st
                                  @ js '', error code '' @ quoted c @ js '', and error message ''
                                  @ quoted m @ js ''.'')
                               None)))
      | Inr None \<Rightarrow>
          (if responseData \<noteq> JUndefined \<and> responseData \<noteq> JNull then
             (if typeof responseData = ''object'' then
                Error (baseExceptionMessage env method requestUrl st
                         @ js '', and response body '' @ quoted (JSON_stringify env responseData) @ js ''.'')
                      None
              else
                (case ToString_js env responseData of
                   Inl e \<Rightarrow> e
                 | Inr body \<Rightarrow>
                     Error (baseExceptionMessage env method requestUrl st
                              @ js '', and response body '' @ quoted body @ js ''.'')
                           None))
           else Error (baseExceptionMessage env method requestUrl st @ js ''.'') None))"

section \<open>The request core\<close>

text \<open>
  A request configuration is an object the caller owns and the client keeps a reference
  to, so configurations live in a store and are named by reference. \<open>headers\<close> is
  \<open>None\<close> while the property is undefined.
\<close>

record request_config =
  headers :: "(jstring \<times> jstring) list option"

type_synonym ref = nat

record request =
  req_method :: http_method
  req_url :: jstring
  req_config :: request_config

text \<open>
  The world the client acts on: the configurations in the store and the requests handed
  to the transport so far, oldest first.
\<close>

record world =
  configs :: "ref \<Rightarrow> request_config"
  sent :: "request list"

text \<open>What awaiting a transport call gives: the promise resolves or rejects.\<close>

datatype outcome = Resolved axios_response | Rejected axios_error

record 't stringifier =
  ToString :: "'t \<Rightarrow> jstring"
  FromString :: "jsval \<Rightarrow> 't"

record ('u, 'g, 'c, 'a) client =
  baseUrl :: url
  userStringifier :: "'u stringifier"
  groupStringifier :: "'g stringifier"
  applicationComponentStringifier :: "'c stringifier"
  accessLevelStringifier :: "'a stringifier"
  requestConfig :: ref
  axiosShim :: "request \<Rightarrow> outcome"

definition transport_call ::
    "('u, 'g, 'c, 'a) client \<Rightarrow> http_method \<Rightarrow> url \<Rightarrow> world \<Rightarrow> outcome \<times> world" where
  "transport_call c method requestUrl w =
     (let r = \<lparr>req_method = method, req_url = href requestUrl,
                 req_config = configs w (requestConfig c)\<rparr>
      in (axiosShim c r, w\<lparr>sent := sent w @ [r]\<rparr>))"

text \<open>
  The \<open>catch\<close> block the four senders share: \<open>typedError.response?.data\<close> is
  undefined when the error carries no response.
\<close>

definition error_data :: "axios_error \<Rightarrow> jsval" where
  "error_data error = (case err_response error of None \<Rightarrow> JUndefined | Some r \<Rightarrow> data r)"

definition handle_rejection :: "environment \<Rightarrow> http_method \<Rightarrow> url \<Rightarrow> axios_error \<Rightarrow> js_error" where
  "handle_rejection env method requestUrl error =
     (case err_status error of
        Some st \<Rightarrow> HandleNonSuccessResponseStatus env method requestUrl st (error_data error)
      | None \<Rightarrow> HandleAxiosError env method requestUrl error)"

definition SendGetRequestAsync ::
    "environment \<Rightarrow> ('u, 'g, 'c, 'a) client \<Rightarrow> url \<Rightarrow> world \<Rightarrow> (js_error + jsval) \<times> world" where
  "SendGetRequestAsync env c requestUrl w =
     (case transport_call c Get requestUrl w of
        (Rejected error, w') \<Rightarrow> (Inl (handle_rejection env Get requestUrl error), w')
      | (Resolved response, w') \<Rightarrow> (Inr (data response), w'))"

definition SendGetRequestForContainsMethodAsync ::
    "environment \<Rightarrow> ('u, 'g, 'c, 'a) client \<Rightarrow> url \<Rightarrow> world \<Rightarrow> (js_error + bool) \<times> world" where
  "SendGetRequestForContainsMethodAsync env c requestUrl w =
     (case transport_call c Get requestUrl w of
        (Rejected error, w') \<Rightarrow>
          (if err_status error = Some 404 then (Inr False, w')
           else (Inl (handle_rejection env Get requestUrl error), w'))
      | (Resolved response, w') \<Rightarrow>
          (if status response = 200 then (Inr True, w') else (Inr False, w')))"

definition SendPostRequestAsync ::
    "environment \<Rightarrow> ('u, 'g, 'c, 'a) client \<Rightarrow> url \<Rightarrow> world \<Rightarrow> (js_error + unit) \<times> world" where
  "SendPostRequestAsync env c requestUrl w =
     (case transport_call c Post requestUrl w of
        (Rejected error, w') \<Rightarrow> (Inl (handle_rejection env Post requestUrl error), w')
      | (Resolved response, w') \<Rightarrow>
          (if status response \<noteq> 201 then
             (Inl (HandleNonSuccessResponseStatus env Post requestUrl (status response) (data response)), w')
           else (Inr (), w')))"

definition SendDeleteRequestAsync ::
    "environment \<Rightarrow> ('u, 'g, 'c, 'a) client \<Rightarrow> url \<Rightarrow> world \<Rightarrow> (js_error + unit) \<times> world" where
  "SendDeleteRequestAsync env c requestUrl w =
     (case transport_call c Delete requestUrl w of
        (Rejected error, w') \<Rightarrow> (Inl (handle_rejection env Delete requestUrl error), w')
      | (Resolved response, w') \<Rightarrow>
          (if status response \<noteq> 200 then
             (Inl (HandleNonSuccessResponseStatus env Delete requestUrl (status response) (data response)), w')
           else (Inr (), w')))"

section \<open>Construction and URL composition\<close>

definition AppendPathToBaseUrl ::
    "environment \<Rightarrow> ('u, 'g, 'c, 'a) client \<Rightarrow> jstring \<Rightarrow> js_error + url" where
  "AppendPathToBaseUrl env c path = URL_new env (href (baseUrl c) @ path)"

definition InitializeBaseUrl :: "environment \<Rightarrow> url \<Rightarrow> js_error + url" where
  "InitializeBaseUrl env base =
     (case URL_new env (href base @ js ''api/v1/'') of
        Inl e \<Rightarrow>
          Inl (Error (js ''Failed to append API suffix to base URL '' @ quoted (href base) @ js ''.'')
                     (Some UrlCause))
      | Inr u \<Rightarrow> Inr u)"

fun set_property :: "jstring \<Rightarrow> jstring \<Rightarrow> (jstring \<times> jstring) list \<Rightarrow> (jstring \<times> jstring) list" where
  "set_property k v [] = [(k, v)]"
| "set_property k v ((k', v') # kvs) =
     (if k' = k then (k, v) # kvs else (k', v') # set_property k v kvs)"

text \<open>
  The constructor's work. The base URL comes first, so a base that cannot take the suffix
  throws before the configuration is touched; then the caller's configuration object
  itself (the client stores the reference it was given) gets its \<open>Accept\<close> header.
\<close>

definition SetBaseConstructorParameters ::
    "environment \<Rightarrow> url \<Rightarrow> 'u stringifier \<Rightarrow> 'g stringifier \<Rightarrow> 'c stringifier \<Rightarrow> 'a stringifier
       \<Rightarrow> ref \<Rightarrow> (request \<Rightarrow> outcome) \<Rightarrow> world \<Rightarrow> (js_error + ('u, 'g, 'c, 'a) client) \<times> world" where
  "SetBaseConstructorParameters env base us gs cs as config shim w =
     (case InitializeBaseUrl env base of
        Inl e \<Rightarrow> (Inl e, w)
      | Inr u \<Rightarrow>
          (let old = configs w config;
               hs = (case headers old of None \<Rightarrow> [] | Some h \<Rightarrow> h);
               new = old\<lparr>headers := Some (set_property (js ''Accept'') (js ''application/json'') hs)\<rparr>
           in (Inr \<lparr>baseUrl = u, userStringifier = us, groupStringifier = gs,
                    applicationComponentStringifier = cs, accessLevelStringifier = as,
                    requestConfig = config, axiosShim = shim\<rparr>,
               w\<lparr>configs := (configs w)(config := new)\<rparr>)))"

section \<open>The typed operations\<close>

text \<open>
  \<open>encodeURIComponent\<close>. The string is read as code points, a lead surrogate and the
  trail surrogate after it making one; a surrogate without its partner makes the
  builtin throw a \<open>URIError\<close>. Letters, digits and \<open>- _ . ! ~ * ' ( )\<close> stay; every
  other code point becomes the octets of its UTF-8 form, each written as \<open>%\<close> and two
  upper-case hexadecimal digits.
\<close>

definition is_lead :: "16 word \<Rightarrow> bool" where
  "is_lead u = (0xD800 \<le> unat u \<and> unat u \<le> 0xDBFF)"

definition is_trail :: "16 word \<Rightarrow> bool" where
  "is_trail u = (0xDC00 \<le> unat u \<and> unat u \<le> 0xDFFF)"

definition pair_point :: "16 word \<Rightarrow> 16 word \<Rightarrow> nat" where
  "pair_point u l = 0x10000 + (unat u - 0xD800) * 1024 + (unat l - 0xDC00)"

fun code_points :: "jstring \<Rightarrow> js_error + nat list" where
  "code_points [] = Inr []"
| "code_points [u] = (if is_lead u \<or> is_trail u then Inl URIError else Inr [unat u])"
| "code_points (u # l # rest) =
     (if is_lead u then
        (if is_trail l then map_sum id ((#) (pair_point u l)) (code_points rest)
         else Inl URIError)
      else if is_trail u then Inl URIError
      else map_sum id ((#) (unat u)) (code_points (l # rest)))"

definition utf8 :: "nat \<Rightarrow> nat list" where
  "utf8 p =
     (if p < 0x80 then [p]
      else if p < 0x800 then [0xC0 + p div 64, 0x80 + p mod 64]
      else if p < 0x10000 then [0xE0 + p div 4096, 0x80 + p div 64 mod 64, 0x80 + p mod 64]
      else [0xF0 + p div 262144, 0x80 + p div 4096 mod 64, 0x80 + p div 64 mod 64, 0x80 + p mod 64])"

definition unreserved :: "char \<Rightarrow> bool" where
  "unreserved ch =
     (ch \<in> set (''ABCDEFGHIJKLMNOPQRSTUVWXYZabcdefghijklmnopqrstuvwxyz0123456789-_.!~*()'' @ [CHR 0x27]))"

definition hex_digit :: "nat \<Rightarrow> char" where
  "hex_digit n = ''0123456789ABCDEF'' ! n"

definition escape_octet :: "nat \<Rightarrow> jstring" where
  "escape_octet b = js [CHR ''%'', hex_digit (b div 16), hex_digit (b mod 16)]"

definition encode_point :: "nat \<Rightarrow> jstring" where
  "encode_point p =
     (if p < 0x80 \<and> unreserved (char_of p) then js [char_of p]
      else concat (map escape_octet (utf8 p)))"

definition encodeURIComponent :: "jstring \<Rightarrow> js_error + jstring" where
  "encodeURIComponent s =
     (case code_points s of
        Inl e \<Rightarrow> Inl e
      | Inr ps \<Rightarrow> Inr (concat (map encode_point ps)))"

text \<open>
  Every operation composes a path out of literal text and encoded identifiers (an
  identifier that cannot be encoded throws before anything else happens), appends it to
  the base URL (the URL constructor may throw, before anything is sent) and hands the
  URL to one of the four senders.
\<close>

definition with_segment ::
    "js_error + jstring \<Rightarrow> (jstring \<Rightarrow> world \<Rightarrow> (js_error + 'r) \<times> world)
       \<Rightarrow> world \<Rightarrow> (js_error + 'r) \<times> world" where
  "with_segment encoded continue w =
     (case encoded of
        Inl e \<Rightarrow> (Inl e, w)
      | Inr segment \<Rightarrow> continue segment w)"

definition with_url ::
    "environment \<Rightarrow> ('u, 'g, 'c, 'a) client \<Rightarrow> jstring \<Rightarrow> (url \<Rightarrow> world \<Rightarrow> (js_error + 'r) \<times> world)
       \<Rightarrow> world \<Rightarrow> (js_error + 'r) \<times> world" where
  "with_url env c path send w =
     (case AppendPathToBaseUrl env c path of
        Inl e \<Rightarrow> (Inl e, w)
      | Inr u \<Rightarrow> send u w)"

definition user_segment :: "('u, 'g, 'c, 'a) client \<Rightarrow> 'u \<Rightarrow> js_error + jstring" where
  "user_segment c user = encodeURIComponent (ToString (userStringifier c) user)"

definition group_segment :: "('u, 'g, 'c, 'a) client \<Rightarrow> 'g \<Rightarrow> js_error + jstring" where
  "group_segment c grp = encodeURIComponent (ToString (groupStringifier c) grp)"


definition ContainsUser ::
    "environment \<Rightarrow> ('u, 'g, 'c, 'a) client \<Rightarrow> 'u \<Rightarrow> world \<Rightarrow> (js_error + bool) \<times> world" where
  "ContainsUser env c user =
     with_segment (user_segment c user)
       (\<lambda>u. with_url env c (js ''users/'' @ u) (SendGetRequestForContainsMethodAsync env c))"

definition ContainsGroup ::
    "environment \<Rightarrow> ('u, 'g, 'c, 'a) client \<Rightarrow> 'g \<Rightarrow> world \<Rightarrow> (js_error + bool) \<times> world" where
  "ContainsGroup env c grp =
     with_segment (group_segment c grp)
       (\<lambda>g. with_url env c (js ''groups/'' @ g) (SendGetRequestForContainsMethodAsync env c))"

definition ContainsEntityType ::
    "environment \<Rightarrow> ('u, 'g, 'c, 'a) client \<Rightarrow> jstring \<Rightarrow> world \<Rightarrow> (js_error + bool) \<times> world" where
  "ContainsEntityType env c entityType =
     with_segment (encodeURIComponent entityType)
       (\<lambda>t. with_url env c (js ''entityTypes/'' @ t) (SendGetRequestForContainsMethodAsync env c))"

definition ContainsEntity ::
    "environment \<Rightarrow> ('u, 'g, 'c, 'a) client \<Rightarrow> jstring \<Rightarrow> jstring \<Rightarrow> world \<Rightarrow> (js_error + bool) \<times> world" where
  "ContainsEntity env c entityType entity =
     with_segment (encodeURIComponent entityType)
       (\<lambda>t. with_segment (encodeURIComponent entity)
          (\<lambda>e. with_url env c (js ''entityTypes/'' @ t @ js ''/entities/'' @ e)
             (SendGetRequestForContainsMethodAsync env c)))"

subsection \<open>The "accessible by" queries\<close>

record ('c, 'a) ApplicationComponentAndAccessLevel =
  ApplicationComponent :: 'c
  AccessLevel :: 'a

record EntityTypeAndEntity =
  EntityType :: jsval
  Entity :: jsval

text \<open>
  \<open>new\<close> makes an object that is the same as no object made before: objects live in a
  heap, the reference is the position, and a new object goes at the end.
\<close>

definition new_object :: "'v \<Rightarrow> 'v list \<Rightarrow> ref \<times> 'v list" where
  "new_object v heap = (length heap, heap @ [v])"

text \<open>
  A \<open>Set\<close> keeps its members in insertion order and takes a value only when no member is
  the same value. Two references are the same value when they are the same reference.
  Two primitive values are the same when they are equal; an object or array inside a
  decoded body is a separate object wherever it occurs, so it is never already a member.
\<close>

definition Set_add :: "ref \<Rightarrow> ref list \<Rightarrow> ref list" where
  "Set_add r members = (if r \<in> set members then members else members @ [r])"

definition is_primitive :: "jsval \<Rightarrow> bool" where
  "is_primitive v = (case v of JArr xs \<Rightarrow> False | JObj kvs \<Rightarrow> False | _ \<Rightarrow> True)"

definition Set_add_value :: "jsval \<Rightarrow> jsval list \<Rightarrow> jsval list" where
  "Set_add_value v members =
     (if is_primitive v \<and> v \<in> set members then members else members @ [v])"

fun add_components ::
    "'c stringifier \<Rightarrow> 'a stringifier \<Rightarrow> jsval list
       \<Rightarrow> ('c, 'a) ApplicationComponentAndAccessLevel list \<Rightarrow> ref list
       \<Rightarrow> js_error + (('c, 'a) ApplicationComponentAndAccessLevel list \<times> ref list)" where
  "add_components cs as [] heap results = Inr (heap, results)"
| "add_components cs as (x # xs) heap results =
     (case get_prop x (js ''applicationComponent'') of
        Inl e \<Rightarrow> Inl e
      | Inr rc \<Rightarrow>
          (case get_prop x (js ''accessLevel'') of
             Inl e \<Rightarrow> Inl e
           | Inr ra \<Rightarrow>
               (case new_object \<lparr>ApplicationComponent = FromString cs rc,
                                 AccessLevel = FromString as ra\<rparr> heap of
                  (r, heap') \<Rightarrow> add_components cs as xs heap' (Set_add r results))))"

fun add_entities ::
    "jsval list \<Rightarrow> EntityTypeAndEntity list \<Rightarrow> ref list
       \<Rightarrow> js_error + (EntityTypeAndEntity list \<times> ref list)" where
  "add_entities [] heap results = Inr (heap, results)"
| "add_entities (x # xs) heap results =
     (case get_prop x (js ''entityType'') of
        Inl e \<Rightarrow> Inl e
      | Inr t \<Rightarrow>
          (case get_prop x (js ''entity'') of
             Inl e \<Rightarrow> Inl e
           | Inr en \<Rightarrow>
               (case new_object \<lparr>EntityType = t, Entity = en\<rparr> heap of
                  (r, heap') \<Rightarrow> add_entities xs heap' (Set_add r results))))"

fun add_entity_values :: "jsval list \<Rightarrow> jsval list \<Rightarrow> js_error + jsval list" where
  "add_entity_values [] results = Inr results"
| "add_entity_values (x # xs) results =
     (case get_prop x (js ''entity'') of
        Inl e \<Rightarrow> Inl e
      | Inr en \<Rightarrow> add_entity_values xs (Set_add_value en results))"

text \<open>
  The three result loops, after the read: what comes back is the heap with the objects
  made and the set of their references, or the set of values.
\<close>

definition components_accessible ::
    "environment \<Rightarrow> ('u, 'g, 'c, 'a) client \<Rightarrow> jstring
       \<Rightarrow> ('c, 'a) ApplicationComponentAndAccessLevel list \<Rightarrow> world
       \<Rightarrow> (js_error + (('c, 'a) ApplicationComponentAndAccessLevel list \<times> ref list)) \<times> world" where
  "components_accessible env c path heap w =
     (case with_url env c path (SendGetRequestAsync env c) w of
        (Inl e, w') \<Rightarrow> (Inl e, w')
      | (Inr rawResults, w') \<Rightarrow>
          (case loop_elements env rawResults of
             Inl e \<Rightarrow> (Inl e, w')
           | Inr xs \<Rightarrow>
               (add_components (applicationComponentStringifier c) (accessLevelStringifier c)
                  xs heap [], w')))"

definition entities_accessible ::
    "environment \<Rightarrow> ('u, 'g, 'c, 'a) client \<Rightarrow> jstring \<Rightarrow> EntityTypeAndEntity list \<Rightarrow> world
       \<Rightarrow> (js_error + (EntityTypeAndEntity list \<times> ref list)) \<times> world" where
  "entities_accessible env c path heap w =
     (case with_url env c path (SendGetRequestAsync env c) w of
        (Inl e, w') \<Rightarrow> (Inl e, w')
      | (Inr rawResults, w') \<Rightarrow>
          (case loop_elements env rawResults of
             Inl e \<Rightarrow> (Inl e, w')
           | Inr xs \<Rightarrow> (add_entities xs heap [], w')))"

definition entities_of_type_accessible ::
    "environment \<Rightarrow> ('u, 'g, 'c, 'a) client \<Rightarrow> jstring \<Rightarrow> world
       \<Rightarrow> (js_error + jsval list) \<times> world" where
  "entities_of_type_accessible env c path w =
     (case with_url env c path (SendGetRequestAsync env c) w of
        (Inl e, w') \<Rightarrow> (Inl e, w')
      | (Inr rawResults, w') \<Rightarrow>
          (case loop_elements env rawResults of
             Inl e \<Rightarrow> (Inl e, w')
           | Inr xs \<Rightarrow> (add_entity_values xs [], w')))"

definition GetApplicationComponentsAccessibleByUser where
  "GetApplicationComponentsAccessibleByUser env c user heap =
     with_segment (user_segment c user)
       (\<lambda>u. components_accessible env c
          (js ''userToApplicationComponentAndAccessLevelMappings/user/'' @ u
             @ js ''?includeIndirectMappings=true'') heap)"

definition GetApplicationComponentsAccessibleByGroup where
  "GetApplicationComponentsAccessibleByGroup env c grp heap =
     with_segment (group_segment c grp)
       (\<lambda>g. components_accessible env c
          (js ''groupToApplicationComponentAndAccessLevelMappings/group/'' @ g
             @ js ''?includeIndirectMappings=true'') heap)"

definition GetEntitiesAccessibleByUser where
  "GetEntitiesAccessibleByUser env c user heap =
     with_segment (user_segment c user)
       (\<lambda>u. entities_accessible env c
          (js ''userToEntityMappings/user/'' @ u @ js ''?includeIndirectMappings=true'') heap)"

definition GetEntitiesOfTypeAccessibleByUser where
  "GetEntitiesOfTypeAccessibleByUser env c user entityType =
     with_segment (user_segment c user)
       (\<lambda>u. with_segment (encodeURIComponent entityType)
          (\<lambda>t. entities_of_type_accessible env c
             (js ''userToEntityMappings/user/'' @ u @ js ''/entityType/'' @ t
                @ js ''?includeIndirectMappings=true'')))"

definition GetEntitiesAccessibleByGroup where
  "GetEntitiesAccessibleByGroup env c grp heap =
     with_segment (group_segment c grp)
       (\<lambda>g. entities_accessible env c
          (js ''groupToEntityMappings/group/'' @ g @ js ''?includeIndirectMappings=true'') heap)"

definition GetEntitiesOfTypeAccessibleByGroup where
  "GetEntitiesOfTypeAccessibleByGroup env c grp entityType =
     with_segment (group_segment c grp)
       (\<lambda>g. with_segment (encodeURIComponent entityType)
          (\<lambda>t. entities_of_type_accessible env c
             (js ''groupToEntityMappings/group/'' @ g @ js ''/entityType/'' @ t
                @ js ''?includeIndirectMappings=true'')))"

section \<open>Reference descriptions\<close>

text \<open>
  Independent descriptions of what the client is to do, in the words of its
  specification, against which the definitions above are compared.
\<close>

text \<open>
  The 404 dispatch as the specification tells it: a table from the known not-found codes
  to the element-type tag, which is also the name of the attribute that carries the
  element; the value of an attribute is that of the first attribute with the name, the
  empty string when there is none; the error carries the record's message as a string.
\<close>

definition spec_known_codes :: "(jstring \<times> jstring) list" where
  "spec_known_codes =
     [(js ''UserNotFoundException'', js ''User''),
      (js ''GroupNotFoundException'', js ''Group''),
      (js ''EntityTypeNotFoundException'', js ''EntityType''),
      (js ''EntityNotFoundException'', js ''Entity'')]"

definition spec_attribute :: "HttpErrorResponse \<Rightarrow> jstring \<Rightarrow> jsval" where
  "spec_attribute r n =
     (case find (\<lambda>a. Name a = JStr n) (Attributes r) of None \<Rightarrow> JStr [] | Some a \<Rightarrow> Value a)"

definition spec_tag :: "HttpErrorResponse \<Rightarrow> jstring option" where
  "spec_tag r = (case Code r of JStr s \<Rightarrow> map_of spec_known_codes s | _ \<Rightarrow> None)"

definition spec_not_found :: "jstring \<Rightarrow> HttpErrorResponse \<Rightarrow> js_error" where
  "spec_not_found m r =
     (case spec_tag r of
        Some tag \<Rightarrow> ElementNotFoundError m tag (spec_attribute r tag)
      | None \<Rightarrow> NotFoundError m (spec_attribute r (js ''ResourceId'')))"









text \<open>
  The transport error as the specification tells it: a plain error that names the URL
  and the method, ends with the message of the underlying error and carries that error
  as its cause.
\<close>

definition spec_transport_error ::
    "environment \<Rightarrow> http_method \<Rightarrow> url \<Rightarrow> axios_error \<Rightarrow> js_error" where
  "spec_transport_error env method requestUrl error =
     Error (js ''Failed to call URL '' @ quoted (href requestUrl) @ js '' with ''
              @ quoted (method_name env method) @ js '' method.  '' @ err_message error)
           (Some (AxiosCause error))"

text \<open>
  The world after an operation that composes \<open>path\<close> and sends with \<open>method\<close>: the
  configurations as they were, and one more request sent, carrying the configuration the
  client refers to; nothing is sent when the URL constructor throws.
\<close>

definition spec_world_after ::
    "environment \<Rightarrow> ('u, 'g, 'c, 'a) client \<Rightarrow> http_method \<Rightarrow> jstring \<Rightarrow> world \<Rightarrow> world" where
  "spec_world_after env c method path w =
     (case URL_parse env (href (baseUrl c) @ path) of
        None \<Rightarrow> w
      | Some h \<Rightarrow>
          w\<lparr>sent := sent w @ [\<lparr>req_method = method, req_url = h,
                                req_config = configs w (requestConfig c)\<rparr>]\<rparr>)"

definition header :: "request_config \<Rightarrow> jstring \<Rightarrow> jstring option" where
  "header config name = (case headers config of None \<Rightarrow> None | Some hs \<Rightarrow> map_of hs name)"

section \<open>Sample collaborators\<close>

text \<open>
  Concrete collaborators on which the properties below are exercised: a runtime whose
  URL constructor accepts every string as it is, string-typed identifiers converted by
  the identity, a client on the base \<open>http://x/api/v1/\<close> with a given transport, and a
  world in which no configuration has headers and nothing has been sent.
\<close>

definition sample_environment :: environment where
  "sample_environment =
     \<lparr>NumberToString = (\<lambda>x. js ''1e+21''),
      StringToNumber = (\<lambda>s. None),
      JSON_stringify = (\<lambda>v. js ''{}''),
      URL_parse = Some,
      method_name = (\<lambda>m. case m of Get \<Rightarrow> js ''GET'' | Post \<Rightarrow> js ''POST'' | Delete \<Rightarrow> js ''DELETE'')\<rparr>"

definition sample_stringifier :: "jstring stringifier" where
  "sample_stringifier =
     \<lparr>ToString = (\<lambda>s. s), FromString = (\<lambda>v. case v of JStr s \<Rightarrow> s | _ \<Rightarrow> [])\<rparr>"

definition sample_client :: "(request \<Rightarrow> outcome) \<Rightarrow> (jstring, jstring, jstring, jstring) client" where
  "sample_client shim =
     \<lparr>baseUrl = \<lparr>href = js ''http://x/api/v1/''\<rparr>,
      userStringifier = sample_stringifier,
      groupStringifier = sample_stringifier,
      applicationComponentStringifier = sample_stringifier,
      accessLevelStringifier = sample_stringifier,
      requestConfig = 0,
      axiosShim = shim\<rparr>"

definition sample_world :: world where
  "sample_world = \<lparr>configs = (\<lambda>r. \<lparr>headers = None\<rparr>), sent = []\<rparr>"

definition sample_error_body :: "string \<Rightarrow> string \<Rightarrow> string \<Rightarrow> jsval" where
  "sample_error_body code attribute v =
     JObj [(js ''error'',
            JObj [(js ''code'', JStr (js code)), (js ''message'', JStr (js ''not found'')),
                  (js ''attributes'',
                   JArr [JObj [(js ''name'', JStr (js attribute)), (js ''value'', JStr (js v))]])])]"

section \<open>Verified properties\<close>

subsection \<open>ASCII literals\<close>

lemma unat_unit_of: "unat (unit_of ch) = of_char ch"
proof -
  have "(of_char ch :: nat) < 256"
    by (metis of_char_mod_256 mod_less_divisor zero_less_numeral)
  then have "(of_char ch :: nat) < 65536" by linarith
  then show ?thesis
    by (simp add: unit_of_def unat_of_nat)
qed

lemma unit_of_inject [simp]: "unit_of a = unit_of b \<longleftrightarrow> a = b"
proof
  assume "unit_of a = unit_of b"
  then have "unat (unit_of a) = unat (unit_of b)" by simp
  then show "a = b" by (simp add: unat_unit_of)
qed simp

lemma js_inject [simp]: "js a = js b \<longleftrightarrow> a = b"
proof (induction a arbitrary: b)
  case Nil
  then show ?case by (auto simp: js_def)
next
  case (Cons x xs)
  then show ?case by (cases b) (auto simp: js_def)
qed

lemma js_Nil [simp]: "js [] = []"
  by (simp add: js_def)

lemma js_eq_Nil [simp]: "js a = [] \<longleftrightarrow> a = []" "[] = js a \<longleftrightarrow> a = []"
  by (auto simp: js_def)

lemma js_append: "js (a @ b) = js a @ js b"
  by (simp add: js_def)

lemma js_Cons: "js (x # xs) = unit_of x # js xs"
  by (simp add: js_def)

subsection \<open>The 404 dispatch\<close>

lemma sample_decodes:
  "DeserializeResponseDataToHttpErrorResponse sample_environment (sample_error_body c a v) =
     Inr (Some \<lparr>Code = JStr (js c), Message = JStr (js ''not found''), Target = JNull,
                Attributes = [\<lparr>Name = JStr (js a), Value = JStr (js v)\<rparr>], InnerError = JNull\<rparr>)"
  by (simp add: sample_environment_def sample_error_body_def
       DeserializeResponseDataToHttpErrorResponse_def hasOwnProperty_def has_key_def get_prop_def
       lookup_def decode_error_object_def loop_elements_def ToNumber_js_def get_index_def
       attribute_of_def iterations_def upt_rec)


lemma error_message_string: "Error_message env (JStr s) = Inr s"
  by (simp add: Error_message_def)

lemma attribute_value_find:
  "attribute_value as n =
     (case find (\<lambda>a. Name a = JStr n) as of None \<Rightarrow> JStr [] | Some a \<Rightarrow> Value a)"
  by (induction as) auto

lemma throw_for_404_spec:
  assumes "Error_message env (Message r) = Inr m"
  shows "throw_for_404 env r = spec_not_found m r"
  using assms
  by (cases "Code r")
     (auto simp: throw_for_404_def spec_not_found_def spec_tag_def spec_known_codes_def
        spec_attribute_def GetHttpErrorResponseAttributeValue_def attribute_value_find
        new_ElementNotFoundError_def new_NotFoundError_def)

text \<open>
  Claim C1, as stated, at a 404 body whose error member has the code
  \<open>UserNotFoundException\<close> and for message an object that owns a \<open>toString\<close> member:
  the body decodes to an error record (the decoder asks only that \<open>message\<close> be
  present), and constructing the error converts the message to a string, which throws a
  \<open>TypeError\<close>; no \<open>ElementNotFoundError\<close> is raised.
\<close>

theorem message_without_conversion:
  "DeserializeResponseDataToHttpErrorResponse sample_environment
     (JObj [(js ''error'',
             JObj [(js ''code'', JStr (js ''UserNotFoundException'')),
                   (js ''message'', JObj [(js ''toString'', JNum (Finite 1))])])])
     = Inr (Some \<lparr>Code = JStr (js ''UserNotFoundException''),
                  Message = JObj [(js ''toString'', JNum (Finite 1))], Target = JNull,
                  Attributes = [], InnerError = JNull\<rparr>)
   \<and> HandleNonSuccessResponseStatus sample_environment Get \<lparr>href = js ''http://x/api/v1/users/bob''\<rparr> 404
     (JObj [(js ''error'',
             JObj [(js ''code'', JStr (js ''UserNotFoundException'')),
                   (js ''message'', JObj [(js ''toString'', JNum (Finite 1))])])])
     = TypeError"
  by (simp add: HandleNonSuccessResponseStatus_def DeserializeResponseDataToHttpErrorResponse_def
        hasOwnProperty_def has_key_def get_prop_def lookup_def decode_error_object_def
        statusCodeToErrorThrowingFunctionMap_def throw_for_404_def new_ElementNotFoundError_def
        Error_message_def)

text \<open>
  Claim C1, amended. When the body of a 404 response decodes to an error record whose
  message converts to a string, the error thrown is the one the specification's table
  gives, with that string for message: for one of the four known not-found codes an
  \<open>ElementNotFoundError\<close> whose element type is the code's tag and whose element
  value is the value of the attribute of that name, for any other code a
  \<open>NotFoundError\<close> whose resource identifier is the value of the \<open>ResourceId\<close>
  attribute; a missing attribute gives the empty string, and the mapping does not end in
  the runtime's own failure.
\<close>

theorem not_found_dispatch:
  assumes "DeserializeResponseDataToHttpErrorResponse env responseData = Inr (Some r)"
      and "Error_message env (Message r) = Inr m"
  shows "HandleNonSuccessResponseStatus env method requestUrl 404 responseData = spec_not_found m r
       \<and> HandleNonSuccessResponseStatus env method requestUrl 404 responseData \<noteq> TypeError
       \<and> ElementType (HandleNonSuccessResponseStatus env method requestUrl 404 responseData) = spec_tag r
       \<and> ElementValue (HandleNonSuccessResponseStatus env method requestUrl 404 responseData) =
           (case spec_tag r of None \<Rightarrow> None | Some tag \<Rightarrow> Some (spec_attribute r tag))
       \<and> ResourceId (HandleNonSuccessResponseStatus env method requestUrl 404 responseData) =
           (case spec_tag r of
              None \<Rightarrow> Some (spec_attribute r (js ''ResourceId''))
            | Some tag \<Rightarrow> Some (spec_attribute r tag))"
  using assms
  by (simp add: HandleNonSuccessResponseStatus_def statusCodeToErrorThrowingFunctionMap_def
       throw_for_404_spec spec_not_found_def split: option.splits)

theorem not_found_dispatch_witness:
  "HandleNonSuccessResponseStatus sample_environment Get \<lparr>href = js ''http://x/api/v1/users/bob''\<rparr> 404
       (sample_error_body ''UserNotFoundException'' ''User'' ''bob'')
     = ElementNotFoundError (js ''not found'') (js ''User'') (JStr (js ''bob''))
   \<and> HandleNonSuccessResponseStatus sample_environment Get \<lparr>href = js ''http://x/api/v1/users/bob''\<rparr> 404
       (sample_error_body ''SomethingElse'' ''ResourceId'' ''xyz'')
     = NotFoundError (js ''not found'') (JStr (js ''xyz''))
   \<and> HandleNonSuccessResponseStatus sample_environment Get \<lparr>href = js ''http://x/api/v1/users/bob''\<rparr> 404
       (sample_error_body ''GroupNotFoundException'' ''Other'' ''xyz'')
     = ElementNotFoundError (js ''not found'') (js ''Group'') (JStr [])"
  using not_found_dispatch [OF sample_decodes [of "''UserNotFoundException''" "''User''" "''bob''"], of "js ''not found''" Get "\<lparr>href = js ''http://x/api/v1/users/bob''\<rparr>"]
        not_found_dispatch [OF sample_decodes [of "''SomethingElse''" "''ResourceId''" "''xyz''"], of "js ''not found''" Get "\<lparr>href = js ''http://x/api/v1/users/bob''\<rparr>"]
        not_found_dispatch [OF sample_decodes [of "''GroupNotFoundException''" "''Other''" "''xyz''"], of "js ''not found''" Get "\<lparr>href = js ''http://x/api/v1/users/bob''\<rparr>"]
  by (simp add: spec_not_found_def spec_tag_def spec_known_codes_def spec_attribute_def
        error_message_string)

subsection \<open>Encoding ASCII text, printing a status\<close>

lemma of_char_small: "(of_char ch :: nat) < 256"
  by (metis of_char_mod_256 mod_less_divisor zero_less_numeral)

lemma ascii_not_surrogate: "\<not> is_lead (unit_of ch)" "\<not> is_trail (unit_of ch)"
  unfolding is_lead_def is_trail_def unat_unit_of
  using of_char_small [of ch] by linarith+

lemma code_points_js: "code_points (js s) = Inr (map of_char s)"
proof (induction s)
  case Nil
  then show ?case by simp
next
  case (Cons a s)
  then show ?case
    by (cases s) (simp_all add: js_Cons ascii_not_surrogate unat_unit_of)
qed

lemma unreserved_ascii: "unreserved ch \<Longrightarrow> (of_char ch :: nat) < 0x80"
  by (auto simp: unreserved_def)

lemma encode_point_unreserved: "unreserved ch \<Longrightarrow> encode_point (of_char ch) = js [ch]"
  by (simp add: encode_point_def unreserved_ascii)

lemma encode_unreserved:
  "list_all unreserved s \<Longrightarrow> encodeURIComponent (js s) = Inr (js s)"
proof -
  assume "list_all unreserved s"
  then have "concat (map encode_point (map of_char s)) = js s"
    by (induction s) (simp_all add: encode_point_unreserved js_Cons)
  then show ?thesis
    by (simp add: encodeURIComponent_def code_points_js)
qed

lemma encode_bob: "encodeURIComponent (js ''bob'') = Inr (js ''bob'')"
  by (rule encode_unreserved) (simp add: unreserved_def)


lemma status_prints:
  "st < 2 ^ 53 \<Longrightarrow> Number_toString env (Finite (of_nat st)) = js (string_of_nat st)"
  by (simp add: Number_toString_def string_of_int_def)

lemma digits_503: "string_of_nat 503 = ''503''"
  by code_simp

lemma prints_503: "Number_toString env (Finite 503) = js ''503''"
  using status_prints [of 503 env] by (simp add: digits_503)

lemma js_merge: "js a @ js b = js (a @ b)" "js a @ js b @ x = js (a @ b) @ x"
  by (simp_all add: js_append)

subsection \<open>The decoder on a null error member\<close>

text \<open>
  Claim C5. The claim has the decoder return null for every body that is not an object
  with an object-valued \<open>error\<close> member owning \<open>code\<close> and \<open>message\<close>. On the body
  \<open>{"error": null}\<close> the code does not return: \<open>typeof null\<close> is \<open>"object"\<close>, so the
  guard lets \<open>null\<close> through and \<open>error.hasOwnProperty\<close> throws a \<open>TypeError\<close>, which
  is also what the caller of the error handling then sees instead of the failure
  message with the status.
\<close>

theorem decoder_throws_on_null_error:
  "DeserializeResponseDataToHttpErrorResponse sample_environment (JObj [(js ''error'', JNull)]) = Inl TypeError
   \<and> HandleNonSuccessResponseStatus sample_environment Get \<lparr>href = js ''http://x/api/v1/users''\<rparr> 500
         (JObj [(js ''error'', JNull)]) = TypeError"
  by (simp add: HandleNonSuccessResponseStatus_def DeserializeResponseDataToHttpErrorResponse_def
        hasOwnProperty_def has_key_def get_prop_def lookup_def)

subsection \<open>Unstructured failures\<close>

text \<open>
  Claim C6. The claim has every non-success response whose body is no error record
  raise an error whose message holds the status and the body. When a GET is rejected
  with status 503 and the body \<open>{"error": null}\<close>, which is no error record, what the
  sender throws is the bare \<open>TypeError\<close> of the decoder: no status, no body. On a body
  the decoder does return null for, \<open>{"detail": null}\<close>, the same rejection gives the
  message the claim describes.
\<close>

theorem null_error_member_hides_status:
  "fst (SendGetRequestAsync sample_environment
          (sample_client (\<lambda>r. Rejected
             \<lparr>err_status = Some 503,
              err_response = Some \<lparr>status = 503, data = JObj [(js ''error'', JNull)]\<rparr>,
              err_message = js ''Request failed with status code 503''\<rparr>))
          \<lparr>href = js ''http://x/api/v1/users''\<rparr> sample_world)
     = Inl TypeError
   \<and> fst (SendGetRequestAsync sample_environment
          (sample_client (\<lambda>r. Rejected
             \<lparr>err_status = Some 503,
              err_response = Some \<lparr>status = 503, data = JObj [(js ''detail'', JNull)]\<rparr>,
              err_message = js ''Request failed with status code 503''\<rparr>))
          \<lparr>href = js ''http://x/api/v1/users''\<rparr> sample_world)
     = Inl (Error (js ''Failed to call URL '' @ quoted (js ''http://x/api/v1/users'') @ js '' with ''
                     @ quoted (js ''GET'')
                     @ js '' method.  Received non-succces HTTP response status 503, and response body ''
                     @ quoted (js ''{}'') @ js ''.'') None)"
  by (simp add: SendGetRequestAsync_def transport_call_def sample_client_def Let_def
        handle_rejection_def error_data_def HandleNonSuccessResponseStatus_def
        DeserializeResponseDataToHttpErrorResponse_def hasOwnProperty_def has_key_def get_prop_def
        lookup_def baseExceptionMessage_def call_failure_def sample_environment_def
        prints_503 js_merge)

subsection \<open>Existence checks\<close>

lemma bob_segment:
  "user_segment (sample_client shim) (js ''bob'') = Inr (js ''bob'')"
  by (simp add: user_segment_def sample_client_def sample_stringifier_def encode_bob)

text \<open>
  Claim C2. The claim has an existence check raise an error on any status other than
  200 and 404. When the transport resolves the GET with status 500 (a transport
  configured to accept every status), \<open>ContainsUser\<close> returns false and raises nothing:
  after the \<open>catch\<close> block the sender compares the status with 200 and answers false
  to everything else, where its doc comment promises false for a 404 only and where the
  same status, when it arrives as a rejection, goes to the error handling.
\<close>

theorem contains_resolved_500_is_false:
  "fst (ContainsUser sample_environment
          (sample_client (\<lambda>r. Resolved \<lparr>status = 500, data = JUndefined\<rparr>)) (js ''bob'') sample_world)
     = Inr False"
  unfolding ContainsUser_def with_segment_def bob_segment
  by (simp add: with_url_def AppendPathToBaseUrl_def
        URL_new_def SendGetRequestForContainsMethodAsync_def transport_call_def Let_def
        sample_environment_def sample_client_def)

subsection \<open>Success statuses of the senders\<close>

lemma post_succeeds_iff:
  "fst (SendPostRequestAsync env c u w) = Inr () \<longleftrightarrow>
     (\<exists>r. axiosShim c \<lparr>req_method = Post, req_url = href u,
                         req_config = configs w (requestConfig c)\<rparr> = Resolved r \<and> status r = 201)"
  by (auto simp: SendPostRequestAsync_def transport_call_def Let_def split: outcome.splits)

lemma delete_succeeds_iff:
  "fst (SendDeleteRequestAsync env c u w) = Inr () \<longleftrightarrow>
     (\<exists>r. axiosShim c \<lparr>req_method = Delete, req_url = href u,
                         req_config = configs w (requestConfig c)\<rparr> = Resolved r \<and> status r = 200)"
  by (auto simp: SendDeleteRequestAsync_def transport_call_def Let_def split: outcome.splits)

lemma get_succeeds_iff:
  "fst (SendGetRequestAsync env c u w) = Inr body \<longleftrightarrow>
     (\<exists>r. axiosShim c \<lparr>req_method = Get, req_url = href u,
                         req_config = configs w (requestConfig c)\<rparr> = Resolved r \<and> data r = body)"
  by (auto simp: SendGetRequestAsync_def transport_call_def Let_def split: outcome.splits)

text \<open>
  Claim C3. The claim has a GET succeed on status 200 only. When the transport resolves
  a GET with status 204, \<open>SendGetRequestAsync\<close> returns the body as a success: it never
  looks at the status of a resolved response, where \<open>SendPostRequestAsync\<close> and
  \<open>SendDeleteRequestAsync\<close> compare it with the one status they expect and, on the same
  response, throw.
\<close>

theorem get_resolved_204_returns_body:
  "fst (SendGetRequestAsync sample_environment
          (sample_client (\<lambda>r. Resolved \<lparr>status = 204, data = JStr []\<rparr>))
          \<lparr>href = js ''http://x/api/v1/users''\<rparr> sample_world)
     = Inr (JStr [])
   \<and> isl (fst (SendPostRequestAsync sample_environment
          (sample_client (\<lambda>r. Resolved \<lparr>status = 204, data = JStr []\<rparr>))
          \<lparr>href = js ''http://x/api/v1/users/bob''\<rparr> sample_world))
   \<and> isl (fst (SendDeleteRequestAsync sample_environment
          (sample_client (\<lambda>r. Resolved \<lparr>status = 204, data = JStr []\<rparr>))
          \<lparr>href = js ''http://x/api/v1/users/bob''\<rparr> sample_world))"
  by (simp add: SendGetRequestAsync_def SendPostRequestAsync_def SendDeleteRequestAsync_def
        transport_call_def sample_client_def Let_def)

subsection \<open>Transport failures\<close>

lemma ToString_js_error: "ToString_js env v = Inl e \<Longrightarrow> e = TypeError"
  by (cases v) (simp_all add: Let_def split: if_splits)

lemma Error_message_error: "Error_message env v = Inl e \<Longrightarrow> e = TypeError"
  by (auto simp: Error_message_def dest: ToString_js_error split: if_splits)

lemma hasOwnProperty_error: "hasOwnProperty v k = Inl e \<Longrightarrow> e = TypeError"
  by (cases v) (auto simp: hasOwnProperty_def split: if_splits)

lemma get_prop_error: "get_prop v k = Inl e \<Longrightarrow> e = TypeError"
  by (cases v) (auto simp: get_prop_def)

lemma ToNumber_js_error: "ToNumber_js env v = Inl e \<Longrightarrow> e = TypeError"
  by (auto simp: ToNumber_js_def simp del: ToString_js.simps dest: ToString_js_error
        split: jsval.splits sum.splits)

lemma loop_elements_error: "loop_elements env v = Inl e \<Longrightarrow> e = TypeError"
  by (auto simp: loop_elements_def dest: get_prop_error ToNumber_js_error split: sum.splits option.splits)

lemma attribute_of_error: "attribute_of x = Inl e \<Longrightarrow> e = TypeError"
  by (auto simp: attribute_of_def dest: get_prop_error split: sum.splits)

lemma collect_attributes_error: "collect (map attribute_of xs) = Inl e \<Longrightarrow> e = TypeError"
proof (induction xs)
  case Nil
  then show ?case by simp
next
  case (Cons x xs)
  then show ?case
    by (cases "attribute_of x") (auto dest: attribute_of_error split: sum.splits)
qed

lemma decode_error_object_error: "decode_error_object env kvs = Inl e \<Longrightarrow> e = TypeError"
  by (auto simp: decode_error_object_def Let_def
        dest: loop_elements_error collect_attributes_error split: sum.splits if_splits)

lemma map_sum_Inl: "map_sum id f x = Inl e \<Longrightarrow> x = Inl e"
  by (cases x) auto

lemma decoder_error:
  "DeserializeResponseDataToHttpErrorResponse env d = Inl e \<Longrightarrow> e = TypeError"
  by (auto simp: DeserializeResponseDataToHttpErrorResponse_def
        dest: hasOwnProperty_error get_prop_error decode_error_object_error map_sum_Inl
        split: if_splits sum.splits bool.splits jsval.splits)

lemma throw_for_404_no_cause: "throw_for_404 env r \<noteq> Error msg (Some cs)"
  by (auto simp: throw_for_404_def new_ElementNotFoundError_def new_NotFoundError_def
        dest: Error_message_error split: sum.splits)

lemma application_failure_no_cause:
  "HandleNonSuccessResponseStatus env method requestUrl st d \<noteq> Error msg (Some cs)"
proof (cases "DeserializeResponseDataToHttpErrorResponse env d")
  case (Inl e)
  then show ?thesis
    using decoder_error [OF Inl] by (simp add: HandleNonSuccessResponseStatus_def)
next
  case (Inr ro)
  show ?thesis
  proof (cases ro)
    case None
    with Inr show ?thesis
      by (auto simp: HandleNonSuccessResponseStatus_def simp del: ToString_js.simps
            dest: ToString_js_error split: sum.splits)
  next
    case (Some r)
    with Inr show ?thesis
      by (auto simp: HandleNonSuccessResponseStatus_def statusCodeToErrorThrowingFunctionMap_def
            throw_for_404_no_cause simp del: ToString_js.simps
            dest: ToString_js_error split: sum.splits)
  qed
qed

lemma handle_rejection_cases:
  "handle_rejection env method requestUrl e =
     (case err_status e of
        None \<Rightarrow> spec_transport_error env method requestUrl e
      | Some st \<Rightarrow> HandleNonSuccessResponseStatus env method requestUrl st (error_data e))"
  by (simp add: handle_rejection_def HandleAxiosError_def spec_transport_error_def call_failure_def
        split: option.splits)

text \<open>
  Claim C8, as stated, at an existence check whose GET is rejected with status 404 and a
  structured error body: the application-level failure is not passed to the error
  decoding, which would have thrown an \<open>ElementNotFoundError\<close>; the check returns false.
\<close>

theorem contains_404_skips_decoding:
  "fst (ContainsUser sample_environment
          (sample_client (\<lambda>r. Rejected
             \<lparr>err_status = Some 404,
              err_response = Some \<lparr>status = 404,
                                    data = sample_error_body ''UserNotFoundException'' ''User'' ''bob''\<rparr>,
              err_message = js ''Request failed with status code 404''\<rparr>))
          (js ''bob'') sample_world)
     = Inr False
   \<and> HandleNonSuccessResponseStatus sample_environment Get \<lparr>href = js ''http://x/api/v1/users/bob''\<rparr> 404
         (sample_error_body ''UserNotFoundException'' ''User'' ''bob'')
     = ElementNotFoundError (js ''not found'') (js ''User'') (JStr (js ''bob''))"
proof -
  have "fst (ContainsUser sample_environment
          (sample_client (\<lambda>r. Rejected
             \<lparr>err_status = Some 404,
              err_response = Some \<lparr>status = 404,
                                    data = sample_error_body ''UserNotFoundException'' ''User'' ''bob''\<rparr>,
              err_message = js ''Request failed with status code 404''\<rparr>))
          (js ''bob'') sample_world)
     = Inr False"
    unfolding ContainsUser_def with_segment_def bob_segment
    by (simp add: with_url_def AppendPathToBaseUrl_def URL_new_def
          SendGetRequestForContainsMethodAsync_def transport_call_def Let_def
          sample_client_def sample_environment_def)
  moreover have "HandleNonSuccessResponseStatus sample_environment Get
         \<lparr>href = js ''http://x/api/v1/users/bob''\<rparr> 404
         (sample_error_body ''UserNotFoundException'' ''User'' ''bob'')
     = ElementNotFoundError (js ''not found'') (js ''User'') (JStr (js ''bob''))"
    by (simp add: HandleNonSuccessResponseStatus_def sample_decodes
          statusCodeToErrorThrowingFunctionMap_def throw_for_404_def new_ElementNotFoundError_def
          error_message_string GetHttpErrorResponseAttributeValue_def)
  ultimately show ?thesis by (rule conjI)
qed

text \<open>
  Claim C8, amended. Whatever the sender, when the transport call is rejected with an
  error that carries no status, the sender throws the transport error: a plain error
  naming the URL and the method, with the underlying error as its cause. When the
  rejection carries a status, the status and the body go to the error decoding instead,
  except that the existence check answers false to status 404. The two are told apart by
  the caller: no error that the decoding stage throws is a transport error.
\<close>

theorem transport_failure:
  assumes "\<forall>m. axiosShim c \<lparr>req_method = m, req_url = href u,
                              req_config = configs w (requestConfig c)\<rparr> = Rejected e"
  shows "fst (SendGetRequestAsync env c u w) =
           Inl (case err_status e of
                  None \<Rightarrow> spec_transport_error env Get u e
                | Some st \<Rightarrow> HandleNonSuccessResponseStatus env Get u st (error_data e))
       \<and> fst (SendPostRequestAsync env c u w) =
           Inl (case err_status e of
                  None \<Rightarrow> spec_transport_error env Post u e
                | Some st \<Rightarrow> HandleNonSuccessResponseStatus env Post u st (error_data e))
       \<and> fst (SendDeleteRequestAsync env c u w) =
           Inl (case err_status e of
                  None \<Rightarrow> spec_transport_error env Delete u e
                | Some st \<Rightarrow> HandleNonSuccessResponseStatus env Delete u st (error_data e))
       \<and> fst (SendGetRequestForContainsMethodAsync env c u w) =
           (case err_status e of
              None \<Rightarrow> Inl (spec_transport_error env Get u e)
            | Some st \<Rightarrow>
                if st = 404 then Inr False
                else Inl (HandleNonSuccessResponseStatus env Get u st (error_data e)))
       \<and> (\<forall>m' u' st d m''. HandleNonSuccessResponseStatus env m' u' st d
                              \<noteq> spec_transport_error env m'' u e)"
  using assms
  by (simp add: SendGetRequestAsync_def SendPostRequestAsync_def SendDeleteRequestAsync_def
        SendGetRequestForContainsMethodAsync_def transport_call_def Let_def
        handle_rejection_cases spec_transport_error_def application_failure_no_cause
        split: option.splits)

theorem transport_failure_witness:
  "fst (SendGetRequestAsync sample_environment
          (sample_client (\<lambda>r. Rejected \<lparr>err_status = None, err_response = None,
                                         err_message = (js ''Network Error'')\<rparr>))
          \<lparr>href = (js ''http://x/api/v1/users'')\<rparr> sample_world)
     = Inl (Error ((js ''Failed to call URL '') @ quoted (js ''http://x/api/v1/users'') @ (js '' with '')
                     @ quoted (js ''GET'') @ (js '' method.  Network Error''))
                  (Some (AxiosCause \<lparr>err_status = None, err_response = None,
                                      err_message = (js ''Network Error'')\<rparr>)))
   \<and> fst (SendPostRequestAsync sample_environment
          (sample_client (\<lambda>r. Rejected \<lparr>err_status = Some 500, err_response = None,
                                         err_message = (js ''Request failed'')\<rparr>))
          \<lparr>href = (js ''http://x/api/v1/users/bob'')\<rparr> sample_world)
     = Inl (HandleNonSuccessResponseStatus sample_environment Post
              \<lparr>href = (js ''http://x/api/v1/users/bob'')\<rparr> 500 JUndefined)"
  using transport_failure [of "sample_client (\<lambda>r. Rejected \<lparr>err_status = None, err_response = None,
                                         err_message = (js ''Network Error'')\<rparr>)"
           "\<lparr>href = (js ''http://x/api/v1/users'')\<rparr>" sample_world
           "\<lparr>err_status = None, err_response = None, err_message = (js ''Network Error'')\<rparr>"
           sample_environment]
        transport_failure [of "sample_client (\<lambda>r. Rejected \<lparr>err_status = Some 500, err_response = None,
                                         err_message = (js ''Request failed'')\<rparr>)"
           "\<lparr>href = (js ''http://x/api/v1/users/bob'')\<rparr>" sample_world
           "\<lparr>err_status = Some 500, err_response = None, err_message = (js ''Request failed'')\<rparr>"
           sample_environment]
  by (simp add: sample_client_def spec_transport_error_def sample_environment_def error_data_def
        js_merge)


subsection \<open>The request configuration\<close>

lemma map_of_set_property: "map_of (set_property k v hs) k = Some v"
  by (induction hs) auto

lemma with_url_world:
  "snd (with_url env c path (SendGetRequestAsync env c) w) = spec_world_after env c Get path w"
  "snd (with_url env c path (SendGetRequestForContainsMethodAsync env c) w) = spec_world_after env c Get path w"
  "snd (with_url env c path (SendPostRequestAsync env c) w) = spec_world_after env c Post path w"
  "snd (with_url env c path (SendDeleteRequestAsync env c) w) = spec_world_after env c Delete path w"
  by (simp_all add: with_url_def AppendPathToBaseUrl_def URL_new_def spec_world_after_def
        SendGetRequestAsync_def SendGetRequestForContainsMethodAsync_def SendPostRequestAsync_def
        SendDeleteRequestAsync_def transport_call_def Let_def
        split: option.splits outcome.splits)

lemma world_after_configs: "configs (spec_world_after env c m path w) = configs w"
  by (simp add: spec_world_after_def split: option.splits)

lemma world_after_sent:
  "sent (spec_world_after env c m path w) = sent w
   \<or> (\<exists>h. sent (spec_world_after env c m path w) =
            sent w @ [\<lparr>req_method = m, req_url = h, req_config = configs w (requestConfig c)\<rparr>])"
  by (simp add: spec_world_after_def split: option.splits)

text \<open>
  Claim C9. A successful construction leaves the client holding the reference it was
  given and writes \<open>Accept = application/json\<close> into the configuration object behind
  that reference, the caller's own, starting from no headers when the object had none
  and touching no other object. As long as nobody else changes it, every operation,
  whichever sender it uses, leaves all configurations as they are, and each request it
  sends carries the \<open>Accept\<close> header.
\<close>

theorem accept_header:
  assumes made: "SetBaseConstructorParameters env base us gs cs as config shim w = (Inr c, w1)"
      and kept: "configs w2 = configs w1"
  shows "requestConfig c = config
       \<and> configs w1 = (configs w)(config := (configs w config)
            \<lparr>headers := Some (set_property (js ''Accept'') (js ''application/json'')
                               (case headers (configs w config) of None \<Rightarrow> [] | Some h \<Rightarrow> h))\<rparr>)
       \<and> header (configs w1 config) (js ''Accept'') = Some (js ''application/json'')
       \<and> snd (with_url env c path (SendGetRequestAsync env c) w2) = spec_world_after env c Get path w2
       \<and> snd (with_url env c path (SendGetRequestForContainsMethodAsync env c) w2)
           = spec_world_after env c Get path w2
       \<and> snd (with_url env c path (SendPostRequestAsync env c) w2) = spec_world_after env c Post path w2
       \<and> snd (with_url env c path (SendDeleteRequestAsync env c) w2)
           = spec_world_after env c Delete path w2
       \<and> configs (spec_world_after env c m path w2) = configs w1
       \<and> list_all (\<lambda>r. header (req_config r) (js ''Accept'') = Some (js ''application/json''))
            (drop (length (sent w2)) (sent (spec_world_after env c m path w2)))"
proof -
  from made obtain u where u: "InitializeBaseUrl env base = Inr u"
    by (auto simp: SetBaseConstructorParameters_def split: sum.splits)
  from made u have c: "requestConfig c = config"
    by (auto simp: SetBaseConstructorParameters_def Let_def)
  from made u have w1: "configs w1 = (configs w)(config := (configs w config)
            \<lparr>headers := Some (set_property (js ''Accept'') (js ''application/json'')
                               (case headers (configs w config) of None \<Rightarrow> [] | Some h \<Rightarrow> h))\<rparr>)"
    by (auto simp: SetBaseConstructorParameters_def Let_def)
  have h: "header (configs w1 config) (js ''Accept'') = Some (js ''application/json'')"
    by (simp add: w1 header_def map_of_set_property)
  have unchanged: "configs (spec_world_after env c m path w2) = configs w1"
    by (simp add: world_after_configs kept)
  have carried: "list_all (\<lambda>r. header (req_config r) (js ''Accept'') = Some (js ''application/json''))
           (drop (length (sent w2)) (sent (spec_world_after env c m path w2)))"
    using h by (simp add: spec_world_after_def kept c split: option.splits)
  from c w1 h unchanged carried show ?thesis
    by (simp only: with_url_world simp_thms)
qed

theorem accept_header_witness:
  "sent (snd (with_url sample_environment
                (sample_client (\<lambda>r. Resolved \<lparr>status = 200, data = JArr []\<rparr>)) (js ''users'')
                (SendGetRequestAsync sample_environment
                   (sample_client (\<lambda>r. Resolved \<lparr>status = 200, data = JArr []\<rparr>)))
                (sample_world\<lparr>configs := (configs sample_world)
                   (0 := \<lparr>headers = Some [((js ''Accept''), (js ''application/json''))]\<rparr>)\<rparr>)))
     = [\<lparr>req_method = Get, req_url = (js ''http://x/api/v1/users''),
         req_config = \<lparr>headers = Some [((js ''Accept''), (js ''application/json''))]\<rparr>\<rparr>]"
proof -
  let ?shim = "\<lambda>r. Resolved \<lparr>status = 200, data = JArr []\<rparr>"
  let ?w1 = "sample_world\<lparr>configs := (configs sample_world)
               (0 := \<lparr>headers = Some [((js ''Accept''), (js ''application/json''))]\<rparr>)\<rparr>"
  have made: "SetBaseConstructorParameters sample_environment \<lparr>href = (js ''http://x/'')\<rparr>
                sample_stringifier sample_stringifier sample_stringifier sample_stringifier
                0 ?shim sample_world = (Inr (sample_client ?shim), ?w1)"
    by (simp add: SetBaseConstructorParameters_def InitializeBaseUrl_def URL_new_def
          sample_environment_def sample_client_def sample_world_def Let_def js_merge)
  have kept: "configs ?w1 = configs ?w1" by simp
  show ?thesis
    using accept_header [OF made kept, of "(js ''users'')" Get]
    by (simp add: spec_world_after_def sample_environment_def sample_client_def sample_world_def
          js_merge)
qed


subsection \<open>The base URL\<close>




subsection \<open>Sets of compound results\<close>

text \<open>Each of the six queries asks for its path with the closure flag set.\<close>

lemma accessible_by_requests:
  "user_segment c user = Inr u \<Longrightarrow>
   snd (GetApplicationComponentsAccessibleByUser env c user heap w) =
     spec_world_after env c Get
       (js ''userToApplicationComponentAndAccessLevelMappings/user/'' @ u
          @ js ''?includeIndirectMappings=true'') w"
  "group_segment c grp = Inr g \<Longrightarrow>
   snd (GetApplicationComponentsAccessibleByGroup env c grp heap w) =
     spec_world_after env c Get
       (js ''groupToApplicationComponentAndAccessLevelMappings/group/'' @ g
          @ js ''?includeIndirectMappings=true'') w"
  "user_segment c user = Inr u \<Longrightarrow>
   snd (GetEntitiesAccessibleByUser env c user eheap w) =
     spec_world_after env c Get
       (js ''userToEntityMappings/user/'' @ u @ js ''?includeIndirectMappings=true'') w"
  "user_segment c user = Inr u \<Longrightarrow> encodeURIComponent entityType = Inr t \<Longrightarrow>
   snd (GetEntitiesOfTypeAccessibleByUser env c user entityType w) =
     spec_world_after env c Get
       (js ''userToEntityMappings/user/'' @ u @ js ''/entityType/'' @ t
          @ js ''?includeIndirectMappings=true'') w"
  "group_segment c grp = Inr g \<Longrightarrow>
   snd (GetEntitiesAccessibleByGroup env c grp eheap w) =
     spec_world_after env c Get
       (js ''groupToEntityMappings/group/'' @ g @ js ''?includeIndirectMappings=true'') w"
  "group_segment c grp = Inr g \<Longrightarrow> encodeURIComponent entityType = Inr t \<Longrightarrow>
   snd (GetEntitiesOfTypeAccessibleByGroup env c grp entityType w) =
     spec_world_after env c Get
       (js ''groupToEntityMappings/group/'' @ g @ js ''/entityType/'' @ t
          @ js ''?includeIndirectMappings=true'') w"
  by (simp_all add: GetApplicationComponentsAccessibleByUser_def
        GetApplicationComponentsAccessibleByGroup_def GetEntitiesAccessibleByUser_def
        GetEntitiesOfTypeAccessibleByUser_def GetEntitiesAccessibleByGroup_def
        GetEntitiesOfTypeAccessibleByGroup_def components_accessible_def entities_accessible_def
        entities_of_type_accessible_def with_segment_def
        with_url_world(1) [symmetric] split: prod.splits sum.splits)

text \<open>
  Starting from a set of references into the heap, the loop adds one member for every
  element of the body, equal or not: a new object is never a member yet.
\<close>

lemma add_entities_one_member_each:
  "\<forall>r \<in> set results. r < length heap \<Longrightarrow> distinct results \<Longrightarrow>
   add_entities xs heap results = Inr (heap', results') \<Longrightarrow>
   length results' = length results + length xs \<and> length heap' = length heap + length xs"
proof (induction xs arbitrary: heap results)
  case Nil
  then show ?case by simp
next
  case (Cons x xs)
  from Cons.prems(3) obtain t en where
    rest: "add_entities xs (heap @ [\<lparr>EntityType = t, Entity = en\<rparr>]) (Set_add (length heap) results)
             = Inr (heap', results')"
    by (auto simp: new_object_def split: sum.splits)
  from Cons.prems(1) have fresh: "length heap \<notin> set results" by auto
  then have added: "Set_add (length heap) results = results @ [length heap]"
    by (simp add: Set_add_def)
  have "\<forall>r \<in> set (results @ [length heap]). r < length (heap @ [\<lparr>EntityType = t, Entity = en\<rparr>])"
    using Cons.prems(1) by auto
  moreover have "distinct (results @ [length heap])"
    using Cons.prems(2) fresh by simp
  ultimately show ?case
    using Cons.IH [of "results @ [length heap]" "heap @ [\<lparr>EntityType = t, Entity = en\<rparr>]"] rest added
    by simp
qed

lemma add_components_one_member_each:
  "\<forall>r \<in> set results. r < length heap \<Longrightarrow> distinct results \<Longrightarrow>
   add_components cs as xs heap results = Inr (heap', results') \<Longrightarrow>
   length results' = length results + length xs \<and> length heap' = length heap + length xs"
proof (induction xs arbitrary: heap results)
  case Nil
  then show ?case by simp
next
  case (Cons x xs)
  from Cons.prems(3) obtain v where
    rest: "add_components cs as xs (heap @ [v]) (Set_add (length heap) results) = Inr (heap', results')"
    by (auto simp: new_object_def split: sum.splits)
  from Cons.prems(1) have fresh: "length heap \<notin> set results" by auto
  then have added: "Set_add (length heap) results = results @ [length heap]"
    by (simp add: Set_add_def)
  have "\<forall>r \<in> set (results @ [length heap]). r < length (heap @ [v])"
    using Cons.prems(1) by auto
  moreover have "distinct (results @ [length heap])"
    using Cons.prems(2) fresh by simp
  ultimately show ?case
    using Cons.IH [of "results @ [length heap]" "heap @ [v]"] rest added
    by simp
qed

text \<open>
  Claim C4. The claim has the set returned by an "accessible by" query free of
  duplicates under structural equality. When the body of
  \<open>GetEntitiesAccessibleByUser\<close> holds the same entity twice, the result is a set of
  two members: each \<open>new EntityTypeAndEntity\<close> is an object of its own and a \<open>Set\<close>
  tells objects apart by reference, so the second, equal in both fields, is added as
  well. \<open>GetEntitiesOfTypeAccessibleByUser\<close>, whose members are strings, returns one
  member for the same body. The URL requested does carry
  \<open>includeIndirectMappings=true\<close>.
\<close>

theorem accessible_entities_keep_duplicates:
  "fst (GetEntitiesAccessibleByUser sample_environment
          (sample_client (\<lambda>r. Resolved \<lparr>status = 200, data =
             JArr [JObj [(js ''entityType'', JStr (js ''ClientAccount'')), (js ''entity'', JStr (js ''CompanyA''))],
                   JObj [(js ''entityType'', JStr (js ''ClientAccount'')), (js ''entity'', JStr (js ''CompanyA''))]]\<rparr>))
          (js ''bob'') [] sample_world)
     = Inr ([\<lparr>EntityType = JStr (js ''ClientAccount''), Entity = JStr (js ''CompanyA'')\<rparr>,
             \<lparr>EntityType = JStr (js ''ClientAccount''), Entity = JStr (js ''CompanyA'')\<rparr>], [0, 1])
   \<and> fst (GetEntitiesOfTypeAccessibleByUser sample_environment
          (sample_client (\<lambda>r. Resolved \<lparr>status = 200, data =
             JArr [JObj [(js ''entityType'', JStr (js ''ClientAccount'')), (js ''entity'', JStr (js ''CompanyA''))],
                   JObj [(js ''entityType'', JStr (js ''ClientAccount'')), (js ''entity'', JStr (js ''CompanyA''))]]\<rparr>))
          (js ''bob'') (js ''ClientAccount'') sample_world)
     = Inr [JStr (js ''CompanyA'')]
   \<and> map req_url (sent (snd (GetEntitiesAccessibleByUser sample_environment
          (sample_client (\<lambda>r. Resolved \<lparr>status = 200, data =
             JArr [JObj [(js ''entityType'', JStr (js ''ClientAccount'')), (js ''entity'', JStr (js ''CompanyA''))],
                   JObj [(js ''entityType'', JStr (js ''ClientAccount'')), (js ''entity'', JStr (js ''CompanyA''))]]\<rparr>))
          (js ''bob'') [] sample_world)))
     = [js ''http://x/api/v1/userToEntityMappings/user/bob?includeIndirectMappings=true'']"
proof -
  let ?body = "JArr [JObj [(js ''entityType'', JStr (js ''ClientAccount'')), (js ''entity'', JStr (js ''CompanyA''))],
                   JObj [(js ''entityType'', JStr (js ''ClientAccount'')), (js ''entity'', JStr (js ''CompanyA''))]]"
  let ?c = "sample_client (\<lambda>r. Resolved \<lparr>status = 200, data = ?body\<rparr>)"
  have elements: "loop_elements sample_environment ?body =
      Inr [JObj [(js ''entityType'', JStr (js ''ClientAccount'')), (js ''entity'', JStr (js ''CompanyA''))],
           JObj [(js ''entityType'', JStr (js ''ClientAccount'')), (js ''entity'', JStr (js ''CompanyA''))]]"
    by (simp add: loop_elements_def get_prop_def ToNumber_js_def iterations_def get_index_def upt_rec)
  have account: "encodeURIComponent (js ''ClientAccount'') = Inr (js ''ClientAccount'')"
    by (rule encode_unreserved) (simp add: unreserved_def)
  have read: "\<And>path. with_url sample_environment ?c path (SendGetRequestAsync sample_environment ?c) sample_world
      = (Inr ?body, sample_world\<lparr>sent := [\<lparr>req_method = Get,
            req_url = js ''http://x/api/v1/'' @ path, req_config = \<lparr>headers = None\<rparr>\<rparr>]\<rparr>)"
    by (simp add: with_url_def AppendPathToBaseUrl_def URL_new_def SendGetRequestAsync_def
          transport_call_def Let_def sample_environment_def sample_client_def sample_world_def)
  have pairs: "GetEntitiesAccessibleByUser sample_environment ?c (js ''bob'') [] sample_world =
      (Inr ([\<lparr>EntityType = JStr (js ''ClientAccount''), Entity = JStr (js ''CompanyA'')\<rparr>,
             \<lparr>EntityType = JStr (js ''ClientAccount''), Entity = JStr (js ''CompanyA'')\<rparr>], [0, 1]),
       sample_world\<lparr>sent := [\<lparr>req_method = Get,
            req_url = js ''http://x/api/v1/'' @ js ''userToEntityMappings/user/'' @ js ''bob''
                        @ js ''?includeIndirectMappings=true'',
            req_config = \<lparr>headers = None\<rparr>\<rparr>]\<rparr>)"
    unfolding GetEntitiesAccessibleByUser_def with_segment_def bob_segment entities_accessible_def
    by (simp add: read elements get_prop_def lookup_def new_object_def Set_add_def)
  have members: "fst (GetEntitiesOfTypeAccessibleByUser sample_environment ?c (js ''bob'')
                       (js ''ClientAccount'') sample_world) = Inr [JStr (js ''CompanyA'')]"
    unfolding GetEntitiesOfTypeAccessibleByUser_def with_segment_def bob_segment account
      entities_of_type_accessible_def
    by (simp add: read elements get_prop_def lookup_def Set_add_value_def is_primitive_def)
  from pairs members show ?thesis
    by (simp add: js_merge)
qed

subsection \<open>Identifiers in the path\<close>






































end
